theory Spec2Isabelle
  imports Main "HOL-Library.Multiset"
begin

section \<open>The player-count dashboard (app.py)\<close>

text \<open>
  The program samples the player count of one game from a remote HTTP interface every
  five minutes, appends each sample to a table, and answers two read queries: a summary
  (latest count, maximum of the last 24 hours) and the series of the last 24 hours.

  What the program reads from its surroundings is an argument of the model:
  \<^item> the replies of the upstream to the GET requests of one run, as a function from the
    attempt number to the reply;
  \<^item> the clock (\<open>datetime.utcnow()\<close>), as a number of microseconds;
  \<^item> the table of the database, as the list of its rows in insertion order.
\<close>

subsection \<open>Values of the response body\<close>

text \<open>
  The value \<open>response.json()\<close> returns. An object is the parsed dictionary, given by its
  items (keys distinct); \<open>JNull\<close> is also Python's \<open>None\<close>. Numbers are the integers:
  numbers with a fraction are not modelled.
\<close>

datatype json =
    JNull
  | JBool bool
  | JInt int
  | JStr string
  | JList "json list"
  | JObj "(string \<times> json) list"

text \<open>
  The exceptions the run can meet. The first three are raised by the HTTP library
  and are instances of \<open>RequestException\<close>; the others are not.
\<close>

datatype exn =
    ConnectionError
  | HTTPError int
  | JSONDecodeError
  | AttributeError
  | TypeError
  | KeyError
  | IndexError
  | DatabaseError

fun is_RequestException :: "exn \<Rightarrow> bool" where
  "is_RequestException ConnectionError = True"
| "is_RequestException (HTTPError _) = True"
| "is_RequestException JSONDecodeError = True"
| "is_RequestException _ = False"

text \<open>Truth value of a Python object, as \<open>if\<close> and \<open>and\<close> test it.\<close>

fun truthy :: "json \<Rightarrow> bool" where
  "truthy JNull = False"
| "truthy (JBool b) = b"
| "truthy (JInt n) = (n \<noteq> 0)"
| "truthy (JStr s) = (s \<noteq> [])"
| "truthy (JList xs) = (xs \<noteq> [])"
| "truthy (JObj kvs) = (kvs \<noteq> [])"

text \<open>\<open>obj.get(key, default)\<close>: only a dictionary has the method.\<close>

fun py_get :: "json \<Rightarrow> string \<Rightarrow> json \<Rightarrow> exn + json" where
  "py_get (JObj kvs) k d = (case map_of kvs k of None \<Rightarrow> Inr d | Some v \<Rightarrow> Inr v)"
| "py_get _ k d = Inl AttributeError"

text \<open>\<open>obj[key]\<close> with a string key.\<close>

fun py_getitem :: "json \<Rightarrow> string \<Rightarrow> exn + json" where
  "py_getitem (JObj kvs) k = (case map_of kvs k of None \<Rightarrow> Inl KeyError | Some v \<Rightarrow> Inr v)"
| "py_getitem _ k = Inl TypeError"

text \<open>\<open>len(obj)\<close>.\<close>

fun py_len :: "json \<Rightarrow> exn + nat" where
  "py_len (JStr s) = Inr (length s)"
| "py_len (JList xs) = Inr (length xs)"
| "py_len (JObj kvs) = Inr (length kvs)"
| "py_len _ = Inl TypeError"

text \<open>
  \<open>obj[0]\<close>: the first element of a list, the first character of a string; a dictionary
  parsed from JSON has string keys only, so the key \<open>0\<close> is missing.
\<close>

fun py_index0 :: "json \<Rightarrow> exn + json" where
  "py_index0 (JList []) = Inl IndexError"
| "py_index0 (JList (x # _)) = Inr x"
| "py_index0 (JStr []) = Inl IndexError"
| "py_index0 (JStr (c # _)) = Inr (JStr [c])"
| "py_index0 (JObj _) = Inl KeyError"
| "py_index0 _ = Inl TypeError"

subsection \<open>The upstream\<close>

text \<open>
  The outcome of one \<open>requests.get(ROBLOX_API_URL, timeout=10)\<close>: the call raises
  (timeout, connection failure), or it returns a response with a status code and a
  body, \<open>None\<close> when the body is not JSON.
\<close>

datatype reply =
    ConnectionFailed
  | Response int "json option"

definition response_json :: "json option \<Rightarrow> exn + json" where
  "response_json body = (case body of None \<Rightarrow> Inl JSONDecodeError | Some data \<Rightarrow> Inr data)"

text \<open>
  \<open>response.raise_for_status()\<close> raises \<open>HTTPError\<close> for the client and server error
  codes, 400 to 599, and returns otherwise.
\<close>

definition raise_for_status :: "int \<Rightarrow> exn + unit" where
  "raise_for_status status_code =
     (if 400 \<le> status_code \<and> status_code < 600 then Inl (HTTPError status_code) else Inr ())"

subsection \<open>The table\<close>

record PlayerCountEntry =
  entry_id :: nat
  timestamp :: int
  player_count :: int

type_synonym table = "PlayerCountEntry list"

text \<open>
  What the column \<open>player_count\<close> (\<open>Integer\<close>, \<open>nullable=False\<close>) takes of the Python
  value handed to \<open>PlayerCountEntry(player_count=...)\<close>: an integer as it is, with no
  check of its sign; a Boolean, which is an integer in Python, as 0 or 1. \<open>None\<close>
  violates the constraint, and a list or a dictionary cannot be bound to the
  statement. Type affinity for strings is not modelled: the model lets the statement
  fail for them as well, and no theorem below depends on it.
\<close>

fun integer_column :: "json \<Rightarrow> exn + int" where
  "integer_column (JInt n) = Inr n"
| "integer_column (JBool b) = Inr (if b then 1 else 0)"
| "integer_column _ = Inl DatabaseError"

text \<open>The next value of the primary key.\<close>

definition next_id :: "table \<Rightarrow> nat" where
  "next_id rows = Suc (fold max (map entry_id rows) 0)"

text \<open>
  \<open>db.session.add(new_entry); db.session.commit()\<close>: one row is appended, with the
  default \<open>datetime.utcnow\<close> as its timestamp, or the commit raises and the table is
  as before.
\<close>

definition add_commit :: "int \<Rightarrow> json \<Rightarrow> table \<Rightarrow> exn + table" where
  "add_commit utcnow v rows =
     (case integer_column v of
        Inl e \<Rightarrow> Inl e
      | Inr n \<Rightarrow> Inr (rows @ [\<lparr>entry_id = next_id rows, timestamp = utcnow, player_count = n\<rparr>]))"

subsection \<open>fetch\_and\_save\_data\<close>

datatype message =
    Attempting
  | Success json
  | Warning_skipping_save
  | Rate_limit_hit nat nat nat
  | Error_failed_to_fetch exn
  | Unexpected_error exn

text \<open>
  The state a run works on: the table, and what the run did to its surroundings, that
  is the number of GET requests made, the delays slept (seconds, in order) and the
  lines printed.
\<close>

record world =
  store :: table
  gets :: nat
  sleeps :: "nat list"
  printed :: "message list"

definition max_retries :: nat where
  "max_retries = 3"

definition initial_delay :: nat where
  "initial_delay = 1"

text \<open>
  The branch of status 200 (lines 48 to 64). \<open>Inl e\<close> is the exception \<open>e\<close> leaving the
  branch, \<open>Inr r\<close> the value returned.
\<close>

definition on_200 :: "json option \<Rightarrow> int \<Rightarrow> world \<Rightarrow> (exn + json option) \<times> world" where
  "on_200 body utcnow w =
     (case response_json body of Inl e \<Rightarrow> (Inl e, w) | Inr json_data \<Rightarrow>
     (case py_get json_data ''data'' JNull of Inl e \<Rightarrow> (Inl e, w) | Inr d \<Rightarrow>
     (case (if truthy d
            then (case py_getitem json_data ''data'' of Inl e \<Rightarrow> Inl e | Inr d' \<Rightarrow>
                 (case py_len d' of Inl e \<Rightarrow> Inl e | Inr n \<Rightarrow> Inr (n > 0)))
            else Inr False)
      of Inl e \<Rightarrow> (Inl e, w) | Inr cond \<Rightarrow>
      if cond then
        (case py_getitem json_data ''data'' of Inl e \<Rightarrow> (Inl e, w) | Inr d' \<Rightarrow>
        (case py_index0 d' of Inl e \<Rightarrow> (Inl e, w) | Inr game_data \<Rightarrow>
        (case py_get game_data ''playing'' (JInt 0) of Inl e \<Rightarrow> (Inl e, w) | Inr playing \<Rightarrow>
        (case add_commit utcnow playing (store w) of Inl e \<Rightarrow> (Inl e, w) | Inr rows \<Rightarrow>
           (Inr (Some playing),
            w\<lparr>store := rows, printed := printed w @ [Success playing]\<rparr>)))))
      else (Inr None, w\<lparr>printed := printed w @ [Warning_skipping_save]\<rparr>))))"

text \<open>
  The loop \<open>for attempt in range(max_retries)\<close> (lines 44 to 73), over the attempt
  numbers still to come. When they are used up the function body ends, which returns
  \<open>None\<close>.
\<close>

fun attempts :: "(nat \<Rightarrow> reply) \<Rightarrow> int \<Rightarrow> nat list \<Rightarrow> world \<Rightarrow> (exn + json option) \<times> world" where
  "attempts upstream utcnow [] w = (Inr None, w)"
| "attempts upstream utcnow (attempt # rest) w =
     (case upstream attempt of
        ConnectionFailed \<Rightarrow> (Inl ConnectionError, w\<lparr>gets := Suc (gets w)\<rparr>)
      | Response status_code body \<Rightarrow>
          if status_code = 200 then on_200 body utcnow (w\<lparr>gets := Suc (gets w)\<rparr>)
          else if status_code = 429 then
            attempts upstream utcnow rest
              (w\<lparr>gets := Suc (gets w),
                 sleeps := sleeps w @ [initial_delay * 2 ^ attempt],
                 printed := printed w @
                   [Rate_limit_hit (attempt + 1) max_retries (initial_delay * 2 ^ attempt)]\<rparr>)
          else
            (case raise_for_status status_code of
               Inl e \<Rightarrow> (Inl e, w\<lparr>gets := Suc (gets w)\<rparr>)
             | Inr _ \<Rightarrow> attempts upstream utcnow rest (w\<lparr>gets := Suc (gets w)\<rparr>)))"

text \<open>
  The function: the line printed first, the \<open>try\<close> block, and the two handlers. Both
  handlers print and fall through to the end of the function, which returns \<open>None\<close>.
  \<open>Inl e\<close> in the result would be an exception reaching the caller.
\<close>

definition fetch_and_save_data :: "(nat \<Rightarrow> reply) \<Rightarrow> int \<Rightarrow> world \<Rightarrow> (exn + json option) \<times> world" where
  "fetch_and_save_data upstream utcnow w =
     (case attempts upstream utcnow [0..<max_retries] (w\<lparr>printed := printed w @ [Attempting]\<rparr>) of
        (Inr r, w') \<Rightarrow> (Inr r, w')
      | (Inl e, w') \<Rightarrow>
          if is_RequestException e
          then (Inr None, w'\<lparr>printed := printed w' @ [Error_failed_to_fetch e]\<rparr>)
          else (Inr None, w'\<lparr>printed := printed w' @ [Unexpected_error e]\<rparr>))"

text \<open>A run that starts on a table, with nothing done yet.\<close>

definition start :: "table \<Rightarrow> world" where
  "start rows = \<lparr>store = rows, gets = 0, sleeps = [], printed = []\<rparr>"

subsection \<open>The queries\<close>

definition GAME_NAME :: string where
  "GAME_NAME = ''Adopt Me! ('' @
     [CHR 0xE0, CHR 0xB8, CHR 0x95, CHR 0xE0, CHR 0xB8, CHR 0xB1, CHR 0xE0, CHR 0xB8, CHR 0xA7,
      CHR 0xE0, CHR 0xB8, CHR 0xAD, CHR 0xE0, CHR 0xB8, CHR 0xA2, CHR 0xE0, CHR 0xB9, CHR 0x88,
      CHR 0xE0, CHR 0xB8, CHR 0xB2, CHR 0xE0, CHR 0xB8, CHR 0x87] @ '')''"

text \<open>\<open>timedelta(hours=h)\<close>, in microseconds.\<close>

definition timedelta_hours :: "int \<Rightarrow> int" where
  "timedelta_hours h = h * 3600000000"

text \<open>\<open>.filter(PlayerCountEntry.timestamp >= since)\<close>\<close>

definition filter_since :: "int \<Rightarrow> table \<Rightarrow> table" where
  "filter_since since rows = filter (\<lambda>e. since \<le> timestamp e) rows"

text \<open>
  \<open>.order_by(PlayerCountEntry.timestamp.asc())\<close> and \<open>.desc()\<close>. SQL leaves the order of
  rows with equal timestamps open; the model keeps them in insertion order.
\<close>

definition order_by_timestamp_asc :: "table \<Rightarrow> table" where
  "order_by_timestamp_asc rows = sort_key timestamp rows"

definition order_by_timestamp_desc :: "table \<Rightarrow> table" where
  "order_by_timestamp_desc rows = sort_key (\<lambda>e. - timestamp e) rows"

text \<open>\<open>.first()\<close>\<close>

definition first :: "'a list \<Rightarrow> 'a option" where
  "first rows = (case rows of [] \<Rightarrow> None | r # _ \<Rightarrow> Some r)"

text \<open>\<open>db.func.max(...)\<close> with \<open>.scalar()\<close>: \<open>None\<close> when no row is selected.\<close>

definition func_max :: "int list \<Rightarrow> int option" where
  "func_max xs = (case xs of [] \<Rightarrow> None | x # ys \<Rightarrow> Some (fold max ys x))"

text \<open>\<open>x or 0\<close>\<close>

definition or_0 :: "int option \<Rightarrow> int" where
  "or_0 x = (case x of None \<Rightarrow> 0 | Some n \<Rightarrow> if n \<noteq> 0 then n else 0)"

record summary =
  game_name :: string
  current_players :: int
  max_players_24h :: int

definition latest_entry :: "table \<Rightarrow> PlayerCountEntry option" where
  "latest_entry rows = first (order_by_timestamp_desc rows)"

definition get_summary :: "int \<Rightarrow> table \<Rightarrow> summary" where
  "get_summary utcnow rows =
     (let current = (case latest_entry rows of Some e \<Rightarrow> player_count e | None \<Rightarrow> 0);
          time_24_hours_ago = utcnow - timedelta_hours 24;
          max_entry_24h = or_0 (func_max (map player_count (filter_since time_24_hours_ago rows)))
      in \<lparr>game_name = GAME_NAME, current_players = current, max_players_24h = max_entry_24h\<rparr>)"

text \<open>\<open>timestamp.strftime('%H:%M')\<close>: hour and minute of the day, two digits each.\<close>

definition digit_char :: "nat \<Rightarrow> char" where
  "digit_char n = ''0123456789'' ! n"

definition two_digits :: "nat \<Rightarrow> string" where
  "two_digits n = [digit_char (n div 10 mod 10), digit_char (n mod 10)]"

definition hour_of :: "int \<Rightarrow> nat" where
  "hour_of t = nat (t div 3600000000 mod 24)"

definition minute_of :: "int \<Rightarrow> nat" where
  "minute_of t = nat (t div 60000000 mod 60)"

definition strftime_HM :: "int \<Rightarrow> string" where
  "strftime_HM t = two_digits (hour_of t) @ '':'' @ two_digits (minute_of t)"

record historical =
  labels :: "string list"
  data :: "int list"

definition get_historical_data :: "int \<Rightarrow> table \<Rightarrow> historical" where
  "get_historical_data utcnow rows =
     (let time_24_hours_ago = utcnow - timedelta_hours 24;
          entries = order_by_timestamp_asc (filter_since time_24_hours_ago rows)
      in \<lparr>labels = map (\<lambda>entry. strftime_HM (timestamp entry)) entries,
          data = map player_count entries\<rparr>)"

subsection \<open>The scheduler\<close>

text \<open>
  \<open>start_scheduler\<close> (lines 81 to 94) runs \<open>fetch_and_save_data\<close> every five minutes. Each
  run meets its own replies and its own clock, and works on the table the runs
  before it left.
\<close>

fun scheduler_runs :: "((nat \<Rightarrow> reply) \<times> int) list \<Rightarrow> table \<Rightarrow> table" where
  "scheduler_runs [] rows = rows"
| "scheduler_runs ((upstream, utcnow) # ticks) rows =
     scheduler_runs ticks (store (snd (fetch_and_save_data upstream utcnow (start rows))))"

subsection \<open>Replies without a negative count\<close>

text \<open>
  A reply reports no negative count: when it has status 200 and its body is an object
  whose \<open>data\<close> is a list with a first record, and that record is an object with a
  field \<open>playing\<close>, the field is an integer that is not negative.
\<close>

fun nonneg_record :: "json \<Rightarrow> bool" where
  "nonneg_record (JObj kvs) =
     (case map_of kvs ''playing'' of None \<Rightarrow> True | Some (JInt n) \<Rightarrow> 0 \<le> n | Some _ \<Rightarrow> False)"
| "nonneg_record _ = True"

fun nonneg_body :: "json \<Rightarrow> bool" where
  "nonneg_body (JObj kvs) =
     (case map_of kvs ''data'' of Some (JList (r # _)) \<Rightarrow> nonneg_record r | _ \<Rightarrow> True)"
| "nonneg_body _ = True"

fun nonneg_reply :: "reply \<Rightarrow> bool" where
  "nonneg_reply (Response status_code (Some body)) =
     (if status_code = 200 then nonneg_body body else True)"
| "nonneg_reply _ = True"

subsection \<open>Inputs of the examples\<close>

text \<open>Upstreams that give the same reply to every attempt.\<close>

definition upstream_429 :: "nat \<Rightarrow> reply" where
  "upstream_429 attempt = Response 429 None"

definition upstream_204 :: "nat \<Rightarrow> reply" where
  "upstream_204 attempt = Response 204 None"

definition upstream_empty_data :: "nat \<Rightarrow> reply" where
  "upstream_empty_data attempt = Response 200 (Some (JObj [(''data'', JList [])]))"

definition upstream_no_playing :: "nat \<Rightarrow> reply" where
  "upstream_no_playing attempt =
     Response 200 (Some (JObj [(''data'', JList [JObj [(''name'', JStr ''Adopt Me!'')]])]))"

definition upstream_playing :: "int \<Rightarrow> nat \<Rightarrow> reply" where
  "upstream_playing n attempt =
     Response 200 (Some (JObj [(''data'', JList [JObj [(''playing'', JInt n)]])]))"

text \<open>An upstream that limits the rate at the first attempt and answers 500 afterwards.\<close>

definition upstream_429_then_500 :: "nat \<Rightarrow> reply" where
  "upstream_429_then_500 attempt = (if attempt = 0 then Response 429 None else Response 500 None)"

text \<open>The table of the end-to-end example: samples at \<open>t0\<close>, one hour and 25 hours later.\<close>

definition three_samples :: "int \<Rightarrow> table" where
  "three_samples t0 =
     [\<lparr>entry_id = 1, timestamp = t0, player_count = 50\<rparr>,
      \<lparr>entry_id = 2, timestamp = t0 + timedelta_hours 1, player_count = 70\<rparr>,
      \<lparr>entry_id = 3, timestamp = t0 + timedelta_hours 25, player_count = 90\<rparr>]"

section \<open>The queries\<close>

subsection \<open>Auxiliary facts\<close>

lemma func_max_Nil: "func_max [] = None"
  by (simp add: func_max_def)

lemma func_max_Max:
  assumes "xs \<noteq> []"
  shows "func_max xs = Some (Max (set xs))"
proof (cases xs)
  case Nil
  with assms show ?thesis by simp
next
  case (Cons x ys)
  have "Max (set (x # ys)) = fold max ys x" by (rule Max.set_eq_fold)
  with Cons show ?thesis by (simp add: func_max_def)
qed

lemma or_0_Some: "or_0 (Some n) = n"
  by (simp add: or_0_def)

lemma set_filter_since:
  "set (filter_since since rows) = {e \<in> set rows. since \<le> timestamp e}"
  by (simp add: filter_since_def)

lemma latest_entry_is_max:
  assumes "rows \<noteq> []"
  shows "\<exists>e. latest_entry rows = Some e \<and> e \<in> set rows \<and>
           (\<forall>e' \<in> set rows. timestamp e' \<le> timestamp e)"
proof -
  let ?s = "sort_key (\<lambda>e. - timestamp e) rows"
  from assms have "?s \<noteq> []" by (metis length_0_conv length_sort)
  then obtain e es where s: "?s = e # es" by (cases ?s) auto
  have "sorted (map (\<lambda>e. - timestamp e) ?s)" by (rule sorted_sort_key)
  with s have "\<forall>x \<in> set es. - timestamp e \<le> - timestamp x" by simp
  moreover have eq: "set ?s = set rows" by simp
  ultimately have "\<forall>e' \<in> set rows. timestamp e' \<le> timestamp e"
    using s by (metis neg_le_iff_le order_refl set_ConsD)
  moreover have "e \<in> set rows" using s eq by (metis list.set_intros(1))
  moreover have "latest_entry rows = Some e"
    using s by (simp add: latest_entry_def order_by_timestamp_desc_def first_def)
  ultimately show ?thesis by blast
qed

lemma current_players_latest:
  "latest_entry rows = Some e \<Longrightarrow> current_players (get_summary utcnow rows) = player_count e"
  by (simp add: get_summary_def)

lemma stale_max_0:
  assumes "\<forall>e \<in> set rows. timestamp e < utcnow - timedelta_hours 24"
  shows "max_players_24h (get_summary utcnow rows) = 0"
proof -
  from assms have "filter_since (utcnow - timedelta_hours 24) rows = []"
    by (auto simp add: filter_since_def filter_empty_conv)
  then show ?thesis by (simp add: get_summary_def func_max_Nil or_0_def)
qed

lemma three_samples_summary:
  "get_summary (t0 + timedelta_hours 26) (three_samples t0) =
     \<lparr>game_name = GAME_NAME, current_players = 90, max_players_24h = 90\<rparr>"
  by (simp add: get_summary_def latest_entry_def order_by_timestamp_desc_def first_def
      filter_since_def func_max_def or_0_def three_samples_def timedelta_hours_def)

lemma three_samples_historical:
  "get_historical_data (t0 + timedelta_hours 26) (three_samples t0) =
     \<lparr>labels = [strftime_HM (t0 + timedelta_hours 25)], data = [90]\<rparr>"
  by (simp add: get_historical_data_def order_by_timestamp_asc_def
      filter_since_def three_samples_def timedelta_hours_def)

lemma three_samples_stale_summary:
  "get_summary (timedelta_hours 100) (three_samples 0) =
     \<lparr>game_name = GAME_NAME, current_players = 90, max_players_24h = 0\<rparr>"
  by (simp add: get_summary_def latest_entry_def order_by_timestamp_desc_def first_def
      filter_since_def func_max_def or_0_def three_samples_def timedelta_hours_def)

lemma three_samples_historical_at_25:
  "get_historical_data (timedelta_hours 25) (three_samples 0) =
     \<lparr>labels = [''01:00'', ''01:00''], data = [70, 90]\<rparr>"
  by (simp add: get_historical_data_def order_by_timestamp_asc_def strftime_HM_def
      two_digits_def hour_of_def minute_of_def digit_char_def filter_since_def
      three_samples_def timedelta_hours_def)

text \<open>
  The label of a timestamp: with \<open>hh * 60 + mm\<close> the minute of the day, the two digits
  of \<open>hh\<close>, a colon, the two digits of \<open>mm\<close>.
\<close>

lemma strftime_HM_minute_of_day:
  "\<exists>hh<24. \<exists>mm<60. t div 60000000 mod 1440 = int (hh * 60 + mm) \<and>
     strftime_HM t = [digit_char (hh div 10), digit_char (hh mod 10), CHR '':'',
                      digit_char (mm div 10), digit_char (mm mod 10)]"
proof -
  define q where "q = t div 60000000"
  have h: "t div 3600000000 = q div 60"
    unfolding q_def using zdiv_zmult2_eq [of 60 t 60000000] by simp
  have m: "q mod 1440 = 60 * (q div 60 mod 24) + q mod 60"
    using zmod_zmult2_eq [of 24 q 60] by simp
  have hb: "hour_of t < 24" by (simp add: hour_of_def nat_less_iff)
  have mb: "minute_of t < 60" by (simp add: minute_of_def nat_less_iff)
  have "int (hour_of t * 60 + minute_of t) = q mod 1440"
    using h m by (simp add: hour_of_def minute_of_def q_def)
  moreover have "strftime_HM t =
      [digit_char (hour_of t div 10), digit_char (hour_of t mod 10), CHR '':'',
       digit_char (minute_of t div 10), digit_char (minute_of t mod 10)]"
    using hb mb by (simp add: strftime_HM_def two_digits_def)
  ultimately show ?thesis using hb mb unfolding q_def by metis
qed

subsection \<open>The summary\<close>

text \<open>
  C7. On the empty table, \<open>get_summary\<close> returns 0 as the current count and 0 as the
  maximum of the last 24 hours.
\<close>

theorem get_summary_empty:
  "current_players (get_summary utcnow []) = 0 \<and> max_players_24h (get_summary utcnow []) = 0"
  by (simp add: get_summary_def latest_entry_def order_by_timestamp_desc_def first_def
      filter_since_def func_max_def or_0_def)

text \<open>
  C5. For every table and every clock value, the maximum of the last 24 hours that
  \<open>get_summary\<close> returns is the greatest \<open>player_count\<close> among exactly the rows whose
  timestamp is not before the cutoff, 24 hours before the clock value, and it is 0
  when there is no such row.
\<close>

theorem max_players_24h_window:
  "max_players_24h (get_summary utcnow rows) =
     (if {e \<in> set rows. utcnow - timedelta_hours 24 \<le> timestamp e} = {} then 0
      else Max (player_count ` {e \<in> set rows. utcnow - timedelta_hours 24 \<le> timestamp e}))"
proof (cases "filter_since (utcnow - timedelta_hours 24) rows = []")
  case True
  then have "{e \<in> set rows. utcnow - timedelta_hours 24 \<le> timestamp e} = {}"
    using set_filter_since [of "utcnow - timedelta_hours 24" rows] by simp
  with True show ?thesis
    by (simp add: get_summary_def func_max_Nil or_0_def)
next
  case False
  then have ne: "{e \<in> set rows. utcnow - timedelta_hours 24 \<le> timestamp e} \<noteq> {}"
    using set_filter_since [of "utcnow - timedelta_hours 24" rows] by (metis set_empty)
  from False have "map player_count (filter_since (utcnow - timedelta_hours 24) rows) \<noteq> []"
    by simp
  then have "func_max (map player_count (filter_since (utcnow - timedelta_hours 24) rows)) =
      Some (Max (player_count ` {e \<in> set rows. utcnow - timedelta_hours 24 \<le> timestamp e}))"
    by (simp add: func_max_Max set_filter_since del: map_is_Nil_conv)
  moreover have "max_players_24h (get_summary utcnow rows) =
      or_0 (func_max (map player_count (filter_since (utcnow - timedelta_hours 24) rows)))"
    by (simp add: get_summary_def)
  ultimately have "max_players_24h (get_summary utcnow rows) =
      Max (player_count ` {e \<in> set rows. utcnow - timedelta_hours 24 \<le> timestamp e})"
    by (simp only: or_0_Some)
  with ne show ?thesis by (simp only: if_False)
qed

text \<open>
  The same at the table of three samples, 26 hours after the first: the row of hour 25
  is in the window, and the maximum is its count.
\<close>

theorem max_players_24h_window_witness:
  "{e \<in> set (three_samples 0). timedelta_hours 26 - timedelta_hours 24 \<le> timestamp e} \<noteq> {} \<and>
   max_players_24h (get_summary (timedelta_hours 26) (three_samples 0)) = 90 \<and>
   Max (player_count `
     {e \<in> set (three_samples 0). timedelta_hours 26 - timedelta_hours 24 \<le> timestamp e}) = 90"
proof -
  have "\<lparr>entry_id = 3, timestamp = timedelta_hours 25, player_count = 90\<rparr>
      \<in> {e \<in> set (three_samples 0). timedelta_hours 26 - timedelta_hours 24 \<le> timestamp e}"
    by (simp add: three_samples_def timedelta_hours_def)
  then have ne:
    "{e \<in> set (three_samples 0). timedelta_hours 26 - timedelta_hours 24 \<le> timestamp e} \<noteq> {}"
    by blast
  have "max_players_24h (get_summary (timedelta_hours 26) (three_samples 0)) = 90"
    using three_samples_summary [of 0] by simp
  moreover from ne max_players_24h_window [of "timedelta_hours 26" "three_samples 0"]
  have "max_players_24h (get_summary (timedelta_hours 26) (three_samples 0)) =
      Max (player_count `
        {e \<in> set (three_samples 0). timedelta_hours 26 - timedelta_hours 24 \<le> timestamp e})"
    by (simp only: if_False)
  ultimately show ?thesis using ne by (simp only: simp_thms)
qed

text \<open>
  C9. On every table that is not empty, the latest-entry query of \<open>get_summary\<close> returns a
  row of the table whose timestamp is the greatest of all, and the current count
  returned is the \<open>player_count\<close> of that row.
\<close>

theorem latest_entry_max_timestamp:
  assumes "rows \<noteq> []"
  shows "\<exists>e. latest_entry rows = Some e \<and> e \<in> set rows \<and>
           (\<forall>e' \<in> set rows. timestamp e' \<le> timestamp e) \<and>
           current_players (get_summary utcnow rows) = player_count e"
  using latest_entry_is_max [OF assms] current_players_latest by blast

theorem latest_entry_max_timestamp_witness:
  "three_samples 0 \<noteq> [] \<and>
   (\<exists>e. latest_entry (three_samples 0) = Some e \<and> e \<in> set (three_samples 0) \<and>
      (\<forall>e' \<in> set (three_samples 0). timestamp e' \<le> timestamp e) \<and>
      current_players (get_summary 0 (three_samples 0)) = player_count e)"
proof -
  have ne: "three_samples 0 \<noteq> []" by (simp add: three_samples_def)
  from latest_entry_max_timestamp [OF ne, of 0] ne show ?thesis by simp
qed

text \<open>
  C10. On every table that is not empty and whose rows are all older than 24 hours, the
  maximum of the last 24 hours is 0, while the current count is the \<open>player_count\<close> of a
  row with the greatest timestamp: the current count is read with no window.
\<close>

theorem summary_fields_disagree:
  assumes "rows \<noteq> []"
    and "\<forall>e \<in> set rows. timestamp e < utcnow - timedelta_hours 24"
  shows "max_players_24h (get_summary utcnow rows) = 0 \<and>
         (\<exists>e. latest_entry rows = Some e \<and> e \<in> set rows \<and>
            (\<forall>e' \<in> set rows. timestamp e' \<le> timestamp e) \<and>
            current_players (get_summary utcnow rows) = player_count e)"
  using stale_max_0 [OF assms(2)] latest_entry_is_max [OF assms(1)] current_players_latest
  by blast

text \<open>
  At the table of three samples, 100 hours after the first, the summary has the
  current count 90 and the maximum 0.
\<close>

theorem summary_fields_disagree_witness:
  "three_samples 0 \<noteq> [] \<and>
   list_all (\<lambda>e. timestamp e < timedelta_hours 100 - timedelta_hours 24) (three_samples 0) \<and>
   max_players_24h (get_summary (timedelta_hours 100) (three_samples 0)) = 0 \<and>
   current_players (get_summary (timedelta_hours 100) (three_samples 0)) = 90"
proof -
  have ne: "three_samples 0 \<noteq> []" by (simp add: three_samples_def)
  have old: "\<forall>e \<in> set (three_samples 0). timestamp e < timedelta_hours 100 - timedelta_hours 24"
    by (simp add: three_samples_def timedelta_hours_def)
  from summary_fields_disagree [OF ne old] ne old show ?thesis
    by (simp add: three_samples_stale_summary list_all_iff)
qed

subsection \<open>The series\<close>

text \<open>
  C6. For every table, \<open>get_historical_data\<close> returns labels and data of the same length,
  which list the rows of the last 24 hours in ascending order of timestamp: at each
  index the datum is the \<open>player_count\<close> of the row and the label is its timestamp as
  hour and minute of the day, two digits each, with a colon between them.
\<close>

theorem historical_labels_data:
  "length (labels (get_historical_data utcnow rows)) =
     length (data (get_historical_data utcnow rows)) \<and>
   (\<exists>entries.
      mset entries = filter_mset (\<lambda>e. utcnow - timedelta_hours 24 \<le> timestamp e) (mset rows) \<and>
      sorted (map timestamp entries) \<and>
      length (data (get_historical_data utcnow rows)) = length entries \<and>
      (\<forall>i < length entries.
         data (get_historical_data utcnow rows) ! i = player_count (entries ! i) \<and>
         labels (get_historical_data utcnow rows) ! i = strftime_HM (timestamp (entries ! i)) \<and>
         (\<exists>hh<24. \<exists>mm<60.
            timestamp (entries ! i) div 60000000 mod 1440 = int (hh * 60 + mm) \<and>
            labels (get_historical_data utcnow rows) ! i =
              [digit_char (hh div 10), digit_char (hh mod 10), CHR '':'',
               digit_char (mm div 10), digit_char (mm mod 10)])))"
proof -
  let ?entries = "order_by_timestamp_asc (filter_since (utcnow - timedelta_hours 24) rows)"
  have l: "labels (get_historical_data utcnow rows) =
      map (\<lambda>e. strftime_HM (timestamp e)) ?entries"
    by (simp add: get_historical_data_def Let_def)
  have d: "data (get_historical_data utcnow rows) = map player_count ?entries"
    by (simp add: get_historical_data_def Let_def)
  have m: "mset ?entries =
      filter_mset (\<lambda>e. utcnow - timedelta_hours 24 \<le> timestamp e) (mset rows)"
    by (simp add: order_by_timestamp_asc_def filter_since_def)
  have s: "sorted (map timestamp ?entries)"
    by (simp add: order_by_timestamp_asc_def)
  have "data (get_historical_data utcnow rows) ! i = player_count (?entries ! i) \<and>
      labels (get_historical_data utcnow rows) ! i = strftime_HM (timestamp (?entries ! i)) \<and>
      (\<exists>hh<24. \<exists>mm<60.
         timestamp (?entries ! i) div 60000000 mod 1440 = int (hh * 60 + mm) \<and>
         labels (get_historical_data utcnow rows) ! i =
           [digit_char (hh div 10), digit_char (hh mod 10), CHR '':'',
            digit_char (mm div 10), digit_char (mm mod 10)])"
    if "i < length ?entries" for i
    using that strftime_HM_minute_of_day [of "timestamp (?entries ! i)"] by (simp add: l d)
  with m s show ?thesis
    by (intro conjI exI [of _ ?entries]) (simp_all add: l d)
qed

text \<open>
  At the table of three samples, 25 hours after the first, the series has the rows of
  hour 1 and hour 25, in this order.
\<close>

theorem historical_labels_data_witness:
  "get_historical_data (timedelta_hours 25) (three_samples 0) =
     \<lparr>labels = [''01:00'', ''01:00''], data = [70, 90]\<rparr> \<and>
   (\<exists>entries.
      mset entries =
        filter_mset (\<lambda>e. timedelta_hours 25 - timedelta_hours 24 \<le> timestamp e)
          (mset (three_samples 0)) \<and>
      sorted (map timestamp entries) \<and> length entries = 2)"
proof -
  from historical_labels_data [of "timedelta_hours 25" "three_samples 0"]
  show ?thesis by (auto simp add: three_samples_historical_at_25)
qed

subsection \<open>The end-to-end example\<close>

text \<open>
  C3, as the program has it. On the table with exactly the samples \<open>(t0, 50)\<close>,
  \<open>(t0 + 1h, 70)\<close> and \<open>(t0 + 25h, 90)\<close>, at the clock value \<open>t0 + 26h\<close>, \<open>get_summary\<close>
  returns the current count 90 and the maximum 90, and \<open>get_historical_data\<close> returns one
  entry, the sample of \<open>t0 + 25h\<close>: the cutoff is \<open>t0 + 2h\<close>, and the sample of \<open>t0 + 1h\<close>
  is before it.
\<close>

theorem three_samples_end_to_end:
  "current_players (get_summary (t0 + timedelta_hours 26) (three_samples t0)) = 90 \<and>
   max_players_24h (get_summary (t0 + timedelta_hours 26) (three_samples t0)) = 90 \<and>
   labels (get_historical_data (t0 + timedelta_hours 26) (three_samples t0)) =
     [strftime_HM (t0 + timedelta_hours 25)] \<and>
   data (get_historical_data (t0 + timedelta_hours 26) (three_samples t0)) = [90]"
  by (simp add: three_samples_summary three_samples_historical)

text \<open>
  C3 as stated fails: with \<open>t0 = 0\<close> the series has one entry, not two.
\<close>

theorem three_samples_historical_counterexample:
  "data (get_historical_data (timedelta_hours 26) (three_samples 0)) = [90] \<and>
   length (data (get_historical_data (timedelta_hours 26) (three_samples 0))) \<noteq> 2"
  using three_samples_historical [of 0] by simp

section \<open>Fetching\<close>

subsection \<open>Auxiliary facts\<close>

lemma range_max_retries: "[0..<max_retries] = [0, 1, 2]"
  by (simp add: max_retries_def upt_conv_Cons)

lemma range_split:
  assumes "k < max_retries"
  shows "[0..<max_retries] = [0..<0 + k] @ k # [Suc k..<max_retries]"
proof -
  have "[0..<max_retries] = [0..<k] @ [k..<max_retries]"
    using assms upt_add_eq_append [of 0 k "max_retries - k"] by simp
  moreover have "[k..<max_retries] = k # [Suc k..<max_retries]"
    using assms by (rule upt_conv_Cons)
  ultimately show ?thesis by simp
qed

text \<open>What the handlers of \<open>fetch_and_save_data\<close> leave of the outcome of the loop.\<close>

lemma fetch_fst:
  "fst (fetch_and_save_data upstream utcnow w) =
     (case fst (attempts upstream utcnow [0..<max_retries]
                  (w\<lparr>printed := printed w @ [Attempting]\<rparr>)) of
        Inl e \<Rightarrow> Inr None | Inr r \<Rightarrow> Inr r)"
  by (simp add: fetch_and_save_data_def split: prod.splits sum.splits)

lemma fetch_store:
  "store (snd (fetch_and_save_data upstream utcnow w)) =
     store (snd (attempts upstream utcnow [0..<max_retries]
                   (w\<lparr>printed := printed w @ [Attempting]\<rparr>)))"
  by (simp add: fetch_and_save_data_def split: prod.splits sum.splits)

lemma fetch_gets:
  "gets (snd (fetch_and_save_data upstream utcnow w)) =
     gets (snd (attempts upstream utcnow [0..<max_retries]
                  (w\<lparr>printed := printed w @ [Attempting]\<rparr>)))"
  by (simp add: fetch_and_save_data_def split: prod.splits sum.splits)

lemma fetch_sleeps:
  "sleeps (snd (fetch_and_save_data upstream utcnow w)) =
     sleeps (snd (attempts upstream utcnow [0..<max_retries]
                    (w\<lparr>printed := printed w @ [Attempting]\<rparr>)))"
  by (simp add: fetch_and_save_data_def split: prod.splits sum.splits)

text \<open>The loop after \<open>k\<close> attempts in a row that met status 429.\<close>

lemma attempts_429_prefix:
  assumes "\<forall>j<k. \<exists>b. upstream (i + j) = Response 429 b"
  shows "\<exists>w'. attempts upstream utcnow ([i..<i + k] @ rest) w =
                 attempts upstream utcnow rest w' \<and>
           store w' = store w \<and> gets w' = gets w + k \<and>
           sleeps w' = sleeps w @ map (\<lambda>j. initial_delay * 2 ^ j) [i..<i + k]"
  using assms
proof (induction k arbitrary: i w)
  case 0
  then show ?case by auto
next
  case (Suc k)
  from Suc.prems obtain b where b: "upstream i = Response 429 b"
    by (metis add.right_neutral zero_less_Suc)
  let ?w1 = "w\<lparr>gets := Suc (gets w),
                 sleeps := sleeps w @ [initial_delay * 2 ^ i],
                 printed := printed w @
                   [Rate_limit_hit (i + 1) max_retries (initial_delay * 2 ^ i)]\<rparr>"
  have "\<forall>j<k. \<exists>b. upstream (Suc i + j) = Response 429 b"
    using Suc.prems by (metis Suc_less_eq add_Suc_shift)
  from Suc.IH [OF this, of ?w1] obtain w' where
    w': "attempts upstream utcnow ([Suc i..<Suc i + k] @ rest) ?w1 =
           attempts upstream utcnow rest w'"
        "store w' = store w" "gets w' = gets w + Suc k"
        "sleeps w' = sleeps w @
           (initial_delay * 2 ^ i) # map (\<lambda>j. initial_delay * 2 ^ j) [Suc i..<Suc i + k]"
    by auto
  have r: "[i..<i + Suc k] = i # [Suc i..<Suc i + k]"
    by (simp add: upt_conv_Cons)
  then have "attempts upstream utcnow ([i..<i + Suc k] @ rest) w =
        attempts upstream utcnow ([Suc i..<Suc i + k] @ rest) ?w1"
    using b by simp
  with w' r show ?case
    by (metis list.simps(9))
qed

text \<open>The branch of status 200 makes no request.\<close>

lemma on_200_gets: "gets (snd (on_200 body utcnow w)) = gets w"
  by (simp add: on_200_def split: sum.splits if_splits)

text \<open>The loop makes at most one request for each attempt number.\<close>

lemma attempts_gets_le:
  "gets (snd (attempts upstream utcnow ks w)) \<le> gets w + length ks"
proof (induction ks arbitrary: w)
  case Nil
  then show ?case by simp
next
  case (Cons k ks)
  show ?case
  proof (cases "upstream k")
    case ConnectionFailed
    then show ?thesis by simp
  next
    case (Response status_code body)
    show ?thesis
    proof (cases "status_code = 200")
      case True
      with Response show ?thesis by (simp add: on_200_gets)
    next
      case False
      show ?thesis
      proof (cases "status_code = 429")
        case True
        from Cons.IH [of "w\<lparr>gets := Suc (gets w),
                 sleeps := sleeps w @ [initial_delay * 2 ^ k],
                 printed := printed w @
                   [Rate_limit_hit (k + 1) max_retries (initial_delay * 2 ^ k)]\<rparr>"]
        show ?thesis using Response True by simp
      next
        case n429: False
        show ?thesis
        proof (cases "raise_for_status status_code")
          case (Inl e)
          with Response False n429 show ?thesis by simp
        next
          case (Inr u)
          from Cons.IH [of "w\<lparr>gets := Suc (gets w)\<rparr>"]
          show ?thesis using Inr Response False n429 by simp
        qed
      qed
    qed
  qed
qed

text \<open>
  When the loop makes more requests than there are attempt numbers before \<open>k\<close>, it
  comes to the attempt \<open>k\<close>, with the table as it was.
\<close>

lemma attempts_reach:
  assumes "gets w + length pre < gets (snd (attempts upstream utcnow (pre @ k # post) w))"
  shows "\<exists>w1. store w1 = store w \<and> gets w1 = gets w + length pre \<and>
           attempts upstream utcnow (pre @ k # post) w = attempts upstream utcnow (k # post) w1"
  using assms
proof (induction pre arbitrary: w)
  case Nil
  then show ?case by auto
next
  case (Cons a pre)
  show ?case
  proof (cases "upstream a")
    case ConnectionFailed
    with Cons.prems show ?thesis by simp
  next
    case (Response status_code body)
    show ?thesis
    proof (cases "status_code = 200")
      case True
      with Response Cons.prems show ?thesis by (simp add: on_200_gets)
    next
      case False
      show ?thesis
      proof (cases "status_code = 429")
        case True
        let ?w = "w\<lparr>gets := Suc (gets w),
                 sleeps := sleeps w @ [initial_delay * 2 ^ a],
                 printed := printed w @
                   [Rate_limit_hit (a + 1) max_retries (initial_delay * 2 ^ a)]\<rparr>"
        have e: "attempts upstream utcnow ((a # pre) @ k # post) w =
            attempts upstream utcnow (pre @ k # post) ?w"
          using Response True by simp
        with Cons.prems have
          "gets ?w + length pre < gets (snd (attempts upstream utcnow (pre @ k # post) ?w))"
          by simp
        from Cons.IH [OF this] e show ?thesis by auto
      next
        case n429: False
        show ?thesis
        proof (cases "raise_for_status status_code")
          case (Inl e)
          with Response False n429 Cons.prems show ?thesis by simp
        next
          case (Inr u)
          let ?w = "w\<lparr>gets := Suc (gets w)\<rparr>"
          have e: "attempts upstream utcnow ((a # pre) @ k # post) w =
              attempts upstream utcnow (pre @ k # post) ?w"
            using Inr Response False n429 by simp
          with Cons.prems have
            "gets ?w + length pre < gets (snd (attempts upstream utcnow (pre @ k # post) ?w))"
            by simp
          from Cons.IH [OF this] e show ?thesis by auto
        qed
      qed
    qed
  qed
qed

lemma fetch_reach:
  assumes "gets w + k < gets (snd (fetch_and_save_data upstream utcnow w))"
  shows "\<exists>w1. store w1 = store w \<and> gets w1 = gets w + k \<and>
           attempts upstream utcnow [0..<max_retries]
               (w\<lparr>printed := printed w @ [Attempting]\<rparr>) =
             attempts upstream utcnow (k # [Suc k..<max_retries]) w1"
proof -
  let ?w = "w\<lparr>printed := printed w @ [Attempting]\<rparr>"
  from assms have g: "gets ?w + k < gets (snd (attempts upstream utcnow [0..<max_retries] ?w))"
    by (simp add: fetch_gets)
  with attempts_gets_le [of upstream utcnow "[0..<max_retries]" ?w] have k: "k < max_retries"
    by simp
  from g range_split [OF k]
  have "gets ?w + length [0..<k] <
      gets (snd (attempts upstream utcnow ([0..<k] @ k # [Suc k..<max_retries]) ?w))"
    by simp
  from attempts_reach [OF this] range_split [OF k] show ?thesis by auto
qed


text \<open>The branch of status 200 on a body without a count.\<close>

lemma on_200_skip:
  assumes "map_of kvs ''data'' = None \<or> (\<exists>d. map_of kvs ''data'' = Some d \<and> \<not> truthy d)"
  shows "on_200 (Some (JObj kvs)) utcnow w =
           (Inr None, w\<lparr>printed := printed w @ [Warning_skipping_save]\<rparr>)"
  using assms by (auto simp add: on_200_def response_json_def)

lemma on_200_default:
  assumes "map_of kvs ''data'' = Some (JList (JObj game # others))"
    and "map_of game ''playing'' = None"
  shows "on_200 (Some (JObj kvs)) utcnow w =
           (Inr (Some (JInt 0)),
            w\<lparr>store := store w @
                 [\<lparr>entry_id = next_id (store w), timestamp = utcnow, player_count = 0\<rparr>],
              printed := printed w @ [Success (JInt 0)]\<rparr>)"
  using assms by (simp add: on_200_def response_json_def add_commit_def)

text \<open>The branch of status 200 leaves the table as it is or appends one row.\<close>

lemma on_200_store_cases:
  "store (snd (on_200 body utcnow w)) = store w \<or>
   (\<exists>json_data d game_data playing n.
      body = Some json_data \<and> py_getitem json_data ''data'' = Inr d \<and>
      py_index0 d = Inr game_data \<and> py_get game_data ''playing'' (JInt 0) = Inr playing \<and>
      integer_column playing = Inr n \<and>
      store (snd (on_200 body utcnow w)) =
        store w @ [\<lparr>entry_id = next_id (store w), timestamp = utcnow, player_count = n\<rparr>])"
  by (auto simp add: on_200_def response_json_def add_commit_def
      split: sum.splits option.splits if_splits
      simp del: py_getitem.simps py_get.simps py_index0.simps integer_column.simps)

lemma integer_column_playing:
  assumes "nonneg_record game_data"
    and "py_get game_data ''playing'' (JInt 0) = Inr playing"
    and "integer_column playing = Inr n"
  shows "0 \<le> n"
proof (cases game_data)
  case (JObj kvs)
  show ?thesis
  proof (cases "map_of kvs ''playing''")
    case None
    with JObj assms(2,3) show ?thesis by auto
  next
    case (Some v)
    with JObj assms show ?thesis by (cases v) auto
  qed
qed (use assms(2) in simp_all)

lemma first_record_nonneg:
  assumes "nonneg_body (JObj kvs)"
    and "py_getitem (JObj kvs) ''data'' = Inr d"
    and "py_index0 d = Inr game_data"
    and "py_get game_data ''playing'' (JInt 0) = Inr playing"
  shows "nonneg_record game_data"
proof (cases d)
  case (JList xs)
  with assms(3) obtain others where xs: "xs = game_data # others"
    by (cases xs) auto
  with JList assms(1,2) show ?thesis
    by (auto split: option.splits)
next
  case (JStr cs)
  with assms(3) obtain c where "game_data = JStr [c]" by (cases cs) auto
  then show ?thesis by simp
qed (use assms(3) in simp_all)

lemma on_200_nonneg:
  assumes "nonneg_reply (Response 200 body)"
    and "\<forall>e \<in> set (store w). 0 \<le> player_count e"
  shows "\<forall>e \<in> set (store (snd (on_200 body utcnow w))). 0 \<le> player_count e"
proof -
  from on_200_store_cases [of body utcnow w] show ?thesis
  proof
    assume "store (snd (on_200 body utcnow w)) = store w"
    with assms(2) show ?thesis by simp
  next
    assume "\<exists>json_data d game_data playing n.
      body = Some json_data \<and> py_getitem json_data ''data'' = Inr d \<and>
      py_index0 d = Inr game_data \<and> py_get game_data ''playing'' (JInt 0) = Inr playing \<and>
      integer_column playing = Inr n \<and>
      store (snd (on_200 body utcnow w)) =
        store w @ [\<lparr>entry_id = next_id (store w), timestamp = utcnow, player_count = n\<rparr>]"
    then obtain json_data d game_data playing n where
      b: "body = Some json_data" and d: "py_getitem json_data ''data'' = Inr d"
      and g: "py_index0 d = Inr game_data"
      and p: "py_get game_data ''playing'' (JInt 0) = Inr playing"
      and n: "integer_column playing = Inr n"
      and st: "store (snd (on_200 body utcnow w)) =
        store w @ [\<lparr>entry_id = next_id (store w), timestamp = utcnow, player_count = n\<rparr>]"
      by blast
    from d obtain kvs where kvs: "json_data = JObj kvs" by (cases json_data) simp_all
    from assms(1) b kvs have "nonneg_body (JObj kvs)" by simp
    from first_record_nonneg [OF this d [unfolded kvs] g p] have "nonneg_record game_data" .
    from integer_column_playing [OF this p n] have "0 \<le> n" .
    with st assms(2) show ?thesis by simp
  qed
qed

lemma attempts_nonneg:
  assumes "\<forall>k \<in> set ks. nonneg_reply (upstream k)"
    and "\<forall>e \<in> set (store w). 0 \<le> player_count e"
  shows "\<forall>e \<in> set (store (snd (attempts upstream utcnow ks w))). 0 \<le> player_count e"
  using assms
proof (induction ks arbitrary: w)
  case Nil
  then show ?case by simp
next
  case (Cons k ks)
  have rest: "\<forall>k \<in> set ks. nonneg_reply (upstream k)" using Cons.prems(1) by simp
  have ih: "\<forall>e \<in> set (store (snd (attempts upstream utcnow ks w'))). 0 \<le> player_count e"
    if "store w' = store w" for w'
    using Cons.IH [OF rest, of w'] Cons.prems(2) that by simp
  show ?case
  proof (cases "upstream k")
    case ConnectionFailed
    with Cons.prems(2) show ?thesis by simp
  next
    case (Response status_code body)
    show ?thesis
    proof (cases "status_code = 200")
      case True
      have "nonneg_reply (Response 200 body)"
        using Cons.prems(1) Response True by simp
      from on_200_nonneg [OF this, of "w\<lparr>gets := Suc (gets w)\<rparr>" utcnow] Cons.prems(2)
      show ?thesis using Response True by simp
    next
      case False
      show ?thesis
      proof (cases "status_code = 429")
        case True
        from ih [of "w\<lparr>gets := Suc (gets w),
                 sleeps := sleeps w @ [initial_delay * 2 ^ k],
                 printed := printed w @
                   [Rate_limit_hit (k + 1) max_retries (initial_delay * 2 ^ k)]\<rparr>"]
        show ?thesis using Response True by simp
      next
        case n429: False
        show ?thesis
        proof (cases "raise_for_status status_code")
          case (Inl e)
          with Response False n429 Cons.prems(2) show ?thesis by simp
        next
          case (Inr u)
          from ih [of "w\<lparr>gets := Suc (gets w)\<rparr>"]
          show ?thesis using Inr Response False n429 by simp
        qed
      qed
    qed
  qed
qed

lemma fetch_nonneg:
  assumes "\<forall>k < max_retries. nonneg_reply (upstream k)"
    and "\<forall>e \<in> set rows. 0 \<le> player_count e"
  shows "\<forall>e \<in> set (store (snd (fetch_and_save_data upstream utcnow (start rows)))).
           0 \<le> player_count e"
proof -
  have "\<forall>k \<in> set [0..<max_retries]. nonneg_reply (upstream k)" using assms(1) by simp
  from attempts_nonneg [OF this,
      of "(start rows)\<lparr>printed := printed (start rows) @ [Attempting]\<rparr>" utcnow]
  show ?thesis using assms(2) by (simp add: fetch_store start_def)
qed

text \<open>The requests of three runs.\<close>

lemma start_gets: "gets (start rows) = 0"
  by (simp add: start_def)

lemma empty_data_gets:
  "gets (snd (fetch_and_save_data upstream_empty_data 7 (start []))) = 1"
  by (simp add: fetch_and_save_data_def range_max_retries upstream_empty_data_def start_def
      on_200_def response_json_def)

lemma no_playing_gets:
  "gets (snd (fetch_and_save_data upstream_no_playing 7 (start []))) = 1"
  by (simp add: fetch_and_save_data_def range_max_retries upstream_no_playing_def start_def
      on_200_def response_json_def add_commit_def next_id_def)

lemma rate_limit_then_500_gets:
  "gets (snd (fetch_and_save_data upstream_429_then_500 0 (start []))) = 2"
  by (simp add: fetch_and_save_data_def range_max_retries upstream_429_then_500_def start_def
      raise_for_status_def)

subsection \<open>A response without a count\<close>

text \<open>
  C1, as the program has it. Let the run make the attempt \<open>k\<close> (it makes more than \<open>k\<close>
  requests) and receive status 200 there, with a body that is an object. When \<open>data\<close> is
  missing from the body or is empty (false in Python), the run returns \<open>None\<close> and the
  table is as before. When \<open>data\<close> is a list whose first record is an object without the field
  \<open>playing\<close>, the count defaults to 0: the run appends a row with \<open>player_count = 0\<close>
  and returns 0.
\<close>

theorem ok_response_without_count:
  assumes "gets w + k < gets (snd (fetch_and_save_data upstream utcnow w))"
    and "upstream k = Response 200 (Some (JObj kvs))"
  shows "((map_of kvs ''data'' = None \<or> (\<exists>d. map_of kvs ''data'' = Some d \<and> \<not> truthy d)) \<longrightarrow>
            fst (fetch_and_save_data upstream utcnow w) = Inr None \<and>
            store (snd (fetch_and_save_data upstream utcnow w)) = store w) \<and>
         (\<forall>game others. map_of kvs ''data'' = Some (JList (JObj game # others)) \<and>
              map_of game ''playing'' = None \<longrightarrow>
            fst (fetch_and_save_data upstream utcnow w) = Inr (Some (JInt 0)) \<and>
            store (snd (fetch_and_save_data upstream utcnow w)) =
              store w @ [\<lparr>entry_id = next_id (store w), timestamp = utcnow, player_count = 0\<rparr>])"
proof -
  from fetch_reach [OF assms(1)] obtain w' where
    w': "attempts upstream utcnow [0..<max_retries] (w\<lparr>printed := printed w @ [Attempting]\<rparr>) =
           attempts upstream utcnow (k # [Suc k..<max_retries]) w'"
      "store w' = store w"
    by blast
  have a: "attempts upstream utcnow (k # [Suc k..<max_retries]) w' =
        on_200 (Some (JObj kvs)) utcnow (w'\<lparr>gets := Suc (gets w')\<rparr>)"
    using assms(2) by simp
  show ?thesis
    using w' a by (auto simp add: fetch_fst fetch_store on_200_skip on_200_default)
qed

text \<open>
  Both cases at the first attempt, on the empty table at clock value 7: the reply with
  an empty \<open>data\<close>, and the reply whose first record has a name and no \<open>playing\<close>.
\<close>

theorem ok_response_without_count_witness:
  "upstream_empty_data 0 = Response 200 (Some (JObj [(''data'', JList [])])) \<and>
   fst (fetch_and_save_data upstream_empty_data 7 (start [])) = Inr None \<and>
   store (snd (fetch_and_save_data upstream_empty_data 7 (start []))) = [] \<and>
   fst (fetch_and_save_data upstream_no_playing 7 (start [])) = Inr (Some (JInt 0)) \<and>
   store (snd (fetch_and_save_data upstream_no_playing 7 (start []))) =
     [\<lparr>entry_id = 1, timestamp = 7, player_count = 0\<rparr>]"
proof -
  have g1: "gets (start []) + 0 < gets (snd (fetch_and_save_data upstream_empty_data 7 (start [])))"
    by (simp add: empty_data_gets start_gets)
  have u1: "upstream_empty_data 0 = Response 200 (Some (JObj [(''data'', JList [])]))"
    by (simp add: upstream_empty_data_def)
  have g2: "gets (start []) + 0 < gets (snd (fetch_and_save_data upstream_no_playing 7 (start [])))"
    by (simp add: no_playing_gets start_gets)
  have u2: "upstream_no_playing 0 =
      Response 200 (Some (JObj [(''data'', JList [JObj [(''name'', JStr ''Adopt Me!'')]])]))"
    by (simp add: upstream_no_playing_def)
  from ok_response_without_count [OF g1 u1]
  have a: "fst (fetch_and_save_data upstream_empty_data 7 (start [])) = Inr None \<and>
      store (snd (fetch_and_save_data upstream_empty_data 7 (start []))) = []"
    by (simp add: start_def)
  from ok_response_without_count [OF g2 u2]
  have b: "fst (fetch_and_save_data upstream_no_playing 7 (start [])) = Inr (Some (JInt 0)) \<and>
      store (snd (fetch_and_save_data upstream_no_playing 7 (start []))) =
        [\<lparr>entry_id = 1, timestamp = 7, player_count = 0\<rparr>]"
    by (simp add: start_def next_id_def)
  from u1 a b show ?thesis by simp
qed

text \<open>
  C1 as stated fails: a reply of status 200 whose first record lacks \<open>playing\<close> makes the
  run return the count 0 and append a row.
\<close>

theorem missing_playing_counterexample:
  "fetch_and_save_data upstream_no_playing 7 (start []) =
     (Inr (Some (JInt 0)),
      \<lparr>store = [\<lparr>entry_id = 1, timestamp = 7, player_count = 0\<rparr>], gets = 1, sleeps = [],
        printed = [Attempting, Success (JInt 0)]\<rparr>)"
  by (simp add: fetch_and_save_data_def range_max_retries upstream_no_playing_def start_def
      on_200_def response_json_def add_commit_def next_id_def)

subsection \<open>Rate limiting\<close>

text \<open>
  C2, what the program does. When the three attempts all meet status 429, the run makes
  three GET requests, returns \<open>None\<close> without an exception and leaves the table as it
  is, and it sleeps three times: 1, 2 and 4 seconds, the last one after the third
  attempt, when no attempt is left.
\<close>

theorem three_rate_limits:
  assumes "\<forall>j<max_retries. \<exists>b. upstream j = Response 429 b"
  shows "fst (fetch_and_save_data upstream utcnow w) = Inr None \<and>
         gets (snd (fetch_and_save_data upstream utcnow w)) = gets w + 3 \<and>
         sleeps (snd (fetch_and_save_data upstream utcnow w)) = sleeps w @ [1, 2, 4] \<and>
         store (snd (fetch_and_save_data upstream utcnow w)) = store w"
proof -
  from assms have "\<forall>j<max_retries. \<exists>b. upstream (0 + j) = Response 429 b" by simp
  from attempts_429_prefix [OF this, of utcnow "[]" "w\<lparr>printed := printed w @ [Attempting]\<rparr>"]
  obtain w' where
    w': "attempts upstream utcnow [0..<max_retries]
           (w\<lparr>printed := printed w @ [Attempting]\<rparr>) = (Inr None, w')"
      "store w' = store w" "gets w' = gets w + max_retries"
      "sleeps w' = sleeps w @ map (\<lambda>j. initial_delay * 2 ^ j) [0..<max_retries]"
    by auto
  have "map (\<lambda>j. initial_delay * 2 ^ j) [0..<max_retries] = [1, 2, 4]"
    by (simp add: range_max_retries initial_delay_def)
  with w' show ?thesis
    by (simp add: fetch_fst fetch_store fetch_gets fetch_sleeps max_retries_def)
qed

theorem three_rate_limits_witness:
  "upstream_429 0 = Response 429 None \<and>
   fst (fetch_and_save_data upstream_429 0 (start [])) = Inr None \<and>
   gets (snd (fetch_and_save_data upstream_429 0 (start []))) = 3 \<and>
   sleeps (snd (fetch_and_save_data upstream_429 0 (start []))) = [1, 2, 4] \<and>
   store (snd (fetch_and_save_data upstream_429 0 (start []))) = []"
proof -
  have u: "upstream_429 0 = Response 429 None"
    by (simp add: upstream_429_def)
  have "\<forall>j<max_retries. \<exists>b. upstream_429 j = Response 429 b"
    by (simp add: upstream_429_def)
  from three_rate_limits [OF this, of 0 "start []"] u show ?thesis
    by (simp add: start_def)
qed

subsection \<open>Other statuses\<close>

text \<open>
  C8, as the program has it. When the run makes the attempt \<open>k\<close> (it makes more than \<open>k\<close>
  requests) and receives an error status there, 400 to 599, other than 429, the run makes
  no further attempt, leaves the table as it is, and returns \<open>None\<close>: no exception reaches
  the caller.
\<close>

theorem error_status_fails_tick:
  assumes "gets w + k < gets (snd (fetch_and_save_data upstream utcnow w))"
    and "upstream k = Response status_code body"
    and "400 \<le> status_code" and "status_code < 600" and "status_code \<noteq> 429"
  shows "fst (fetch_and_save_data upstream utcnow w) = Inr None \<and>
         gets (snd (fetch_and_save_data upstream utcnow w)) = gets w + k + 1 \<and>
         store (snd (fetch_and_save_data upstream utcnow w)) = store w"
proof -
  from fetch_reach [OF assms(1)] obtain w' where
    w': "attempts upstream utcnow [0..<max_retries] (w\<lparr>printed := printed w @ [Attempting]\<rparr>) =
           attempts upstream utcnow (k # [Suc k..<max_retries]) w'"
      "store w' = store w" "gets w' = gets w + k"
    by blast
  have a: "attempts upstream utcnow (k # [Suc k..<max_retries]) w' =
        (Inl (HTTPError status_code), w'\<lparr>gets := Suc (gets w')\<rparr>)"
    using assms(2-5) by (simp add: raise_for_status_def)
  show ?thesis
    using w' a by (simp add: fetch_fst fetch_store fetch_gets)
qed

text \<open>
  Status 429 at the first attempt and 500 at the second: two GET requests, and the
  third attempt is not made.
\<close>

theorem error_status_fails_tick_witness:
  "upstream_429_then_500 0 = Response 429 None \<and>
   upstream_429_then_500 1 = Response 500 None \<and>
   fst (fetch_and_save_data upstream_429_then_500 0 (start [])) = Inr None \<and>
   gets (snd (fetch_and_save_data upstream_429_then_500 0 (start []))) = 2 \<and>
   store (snd (fetch_and_save_data upstream_429_then_500 0 (start []))) = []"
proof -
  have g: "gets (start []) + 1 <
      gets (snd (fetch_and_save_data upstream_429_then_500 0 (start [])))"
    by (simp add: rate_limit_then_500_gets start_gets)
  have u: "upstream_429_then_500 1 = Response 500 None"
    by (simp add: upstream_429_then_500_def)
  have u0: "upstream_429_then_500 0 = Response 429 None"
    by (simp add: upstream_429_then_500_def)
  from error_status_fails_tick [OF g u] u u0 show ?thesis
    by (simp add: start_def)
qed

text \<open>
  C8 as stated fails: status 204 is neither 200 nor 429, \<open>raise_for_status\<close> does not
  raise for it, and the loop goes on: the run makes all three GET requests.
\<close>

theorem status_204_counterexample:
  "fetch_and_save_data upstream_204 0 (start []) =
     (Inr None, \<lparr>store = [], gets = 3, sleeps = [], printed = [Attempting]\<rparr>)"
  by (simp add: fetch_and_save_data_def range_max_retries upstream_204_def start_def
      raise_for_status_def)

subsection \<open>The stored counts\<close>

text \<open>
  C4, as the program has it. The program stores the count the upstream reports and does
  not check its sign. When no reply of any run reports a negative count, and the table
  the runs start on has no negative count, every row of the table after the runs has
  \<open>player_count \<ge> 0\<close>.
\<close>

theorem stored_counts_nonneg:
  assumes "\<forall>tick \<in> set ticks. \<forall>k < max_retries. nonneg_reply (fst tick k)"
    and "\<forall>e \<in> set rows. 0 \<le> player_count e"
  shows "\<forall>e \<in> set (scheduler_runs ticks rows). 0 \<le> player_count e"
  using assms
proof (induction ticks arbitrary: rows)
  case Nil
  then show ?case by simp
next
  case (Cons tick ticks)
  obtain upstream utcnow where tick: "tick = (upstream, utcnow)" by (cases tick)
  have "\<forall>k < max_retries. nonneg_reply (upstream k)" using Cons.prems(1) tick by simp
  from fetch_nonneg [OF this Cons.prems(2), of utcnow]
  have "\<forall>e \<in> set (store (snd (fetch_and_save_data upstream utcnow (start rows)))).
          0 \<le> player_count e" .
  moreover have "\<forall>tick \<in> set ticks. \<forall>k < max_retries. nonneg_reply (fst tick k)"
    using Cons.prems(1) by simp
  ultimately show ?case using Cons.IH tick by simp
qed

text \<open>
  Two runs from the empty table: the first stores the count 5, the second meets status
  429 three times and stores nothing.
\<close>

theorem stored_counts_nonneg_witness:
  "map player_count (scheduler_runs [(upstream_playing 5, 7), (upstream_429, 8)] []) = [5] \<and>
   list_all (\<lambda>e. 0 \<le> player_count e)
     (scheduler_runs [(upstream_playing 5, 7), (upstream_429, 8)] [])"
proof -
  have h1: "\<forall>tick \<in> set [(upstream_playing 5, 7), (upstream_429, 8)].
      \<forall>k < max_retries. nonneg_reply (fst tick k)"
    by (simp add: upstream_playing_def upstream_429_def)
  have h2: "\<forall>e \<in> set ([] :: table). 0 \<le> player_count e" by simp
  have "map player_count (scheduler_runs [(upstream_playing 5, 7), (upstream_429, 8)] []) = [5]"
    by (simp add: fetch_and_save_data_def range_max_retries upstream_playing_def
        upstream_429_def start_def on_200_def response_json_def add_commit_def)
  with stored_counts_nonneg [OF h1 h2] show ?thesis
    by (simp add: list_all_iff)
qed

text \<open>
  C4 as stated fails: a reply that reports the count \<open>- 5\<close> is stored as it is.
\<close>

theorem negative_count_counterexample:
  "map player_count (scheduler_runs [(upstream_playing (- 5), 7)] []) = [- 5]"
  by (simp add: fetch_and_save_data_def range_max_retries upstream_playing_def start_def
      on_200_def response_json_def add_commit_def)

end
